theory Spec2Isabelle
  imports Complex_Main
begin

section \<open>JavaScript values used by the dashboard script\<close>

text \<open>
  The script \<open>static/js/app.js\<close> works on strings, on \<open>undefined\<close> and on numbers.
  A string is a list of code units; the model covers code units below 256 (\<open>char\<close>).
\<close>

datatype jsval = Undefined | Str string

text \<open>
  A JavaScript number is an exact real extended by the three special values of IEEE
  arithmetic.  Rounding to binary64 (overflow to an infinity included) and the sign of
  zero are not modelled: \<open>Num r\<close> stands for the double whose value is \<open>r\<close>.  Every
  branch the script takes on \<open>NaN\<close>, \<open>Infinity\<close> and \<open>-Infinity\<close> is kept.
\<close>

datatype jsnum = Num real | PInf | NInf | NaN

text \<open>The operators \<open><\<close>, \<open><=\<close> and \<open>===\<close> on numbers: a comparison with \<open>NaN\<close> is
  false.\<close>

fun js_lt :: "jsnum \<Rightarrow> jsnum \<Rightarrow> bool" where
  "js_lt NaN _ = False"
| "js_lt _ NaN = False"
| "js_lt (Num a) (Num b) = (a < b)"
| "js_lt (Num _) PInf = True"
| "js_lt (Num _) NInf = False"
| "js_lt PInf _ = False"
| "js_lt NInf NInf = False"
| "js_lt NInf _ = True"

fun js_le :: "jsnum \<Rightarrow> jsnum \<Rightarrow> bool" where
  "js_le NaN _ = False"
| "js_le _ NaN = False"
| "js_le (Num a) (Num b) = (a \<le> b)"
| "js_le (Num _) PInf = True"
| "js_le (Num _) NInf = False"
| "js_le PInf PInf = True"
| "js_le PInf _ = False"
| "js_le NInf _ = True"

fun js_seq :: "jsnum \<Rightarrow> jsnum \<Rightarrow> bool" where
  "js_seq NaN _ = False"
| "js_seq _ NaN = False"
| "js_seq a b = (a = b)"

text \<open>Unary minus, \<open>-\<close>, \<open>*\<close> and \<open>/\<close> with the IEEE results on the special values.\<close>

fun js_neg :: "jsnum \<Rightarrow> jsnum" where
  "js_neg (Num a) = Num (- a)"
| "js_neg PInf = NInf"
| "js_neg NInf = PInf"
| "js_neg NaN = NaN"

fun js_sub :: "jsnum \<Rightarrow> jsnum \<Rightarrow> jsnum" where
  "js_sub NaN _ = NaN"
| "js_sub _ NaN = NaN"
| "js_sub (Num a) (Num b) = Num (a - b)"
| "js_sub (Num _) PInf = NInf"
| "js_sub (Num _) NInf = PInf"
| "js_sub PInf PInf = NaN"
| "js_sub PInf _ = PInf"
| "js_sub NInf NInf = NaN"
| "js_sub NInf _ = NInf"

definition signedInf :: "real \<Rightarrow> jsnum" where
  "signedInf a = (if a = 0 then NaN else if 0 < a then PInf else NInf)"

fun js_mul :: "jsnum \<Rightarrow> jsnum \<Rightarrow> jsnum" where
  "js_mul NaN _ = NaN"
| "js_mul _ NaN = NaN"
| "js_mul (Num a) (Num b) = Num (a * b)"
| "js_mul (Num a) PInf = signedInf a"
| "js_mul (Num a) NInf = signedInf (- a)"
| "js_mul PInf (Num b) = signedInf b"
| "js_mul NInf (Num b) = signedInf (- b)"
| "js_mul PInf PInf = PInf"
| "js_mul PInf NInf = NInf"
| "js_mul NInf PInf = NInf"
| "js_mul NInf NInf = PInf"

fun js_div :: "jsnum \<Rightarrow> jsnum \<Rightarrow> jsnum" where
  "js_div NaN _ = NaN"
| "js_div _ NaN = NaN"
| "js_div (Num a) (Num b) = (if b = 0 then signedInf a else Num (a / b))"
| "js_div (Num _) _ = Num 0"
| "js_div PInf (Num b) = (if 0 \<le> b then PInf else NInf)"
| "js_div NInf (Num b) = (if 0 \<le> b then NInf else PInf)"
| "js_div _ _ = NaN"

fun Math_floor :: "jsnum \<Rightarrow> jsnum" where
  "Math_floor (Num a) = Num (of_int \<lfloor>a\<rfloor>)"
| "Math_floor x = x"

text \<open>
  Conversion of a number to a string inside a template literal.  The script converts
  only results of \<open>Math.floor\<close>, so the finite case prints an integer: decimal digits,
  which is what JavaScript prints below \<open>10^21\<close> (a difference of two time values,
  in hours, stays below \<open>5 * 10^9\<close>).
\<close>

function showNat :: "nat \<Rightarrow> string" where
  "showNat n = (if n < 10 then [''0123456789'' ! n]
                else showNat (n div 10) @ [''0123456789'' ! (n mod 10)])"
  by pat_completeness auto
termination
  by (relation "measure id") auto

declare showNat.simps [simp del]

definition showInt :: "int \<Rightarrow> string" where
  "showInt i = (if i < 0 then CHR ''-'' # showNat (nat (- i)) else showNat (nat i))"

fun numberToString :: "jsnum \<Rightarrow> string" where
  "numberToString (Num a) = showInt \<lfloor>a\<rfloor>"
| "numberToString PInf = ''Infinity''"
| "numberToString NInf = ''-Infinity''"
| "numberToString NaN = ''NaN''"

definition toString :: "jsval \<Rightarrow> string" where
  "toString v = (case v of Undefined \<Rightarrow> ''undefined'' | Str s \<Rightarrow> s)"

text \<open>The operand of \<open>!\<close>: \<open>undefined\<close> and the empty string are falsy.\<close>

definition falsy :: "jsval \<Rightarrow> bool" where
  "falsy v = (case v of Undefined \<Rightarrow> True | Str s \<Rightarrow> s = [])"

section \<open>String operations\<close>

text \<open>White space and line terminators removed by \<open>trim\<close>, among the code units below
  256: TAB, LF, VT, FF, CR, SP and NBSP.\<close>

definition isWhiteSpace :: "char \<Rightarrow> bool" where
  "isWhiteSpace c =
     (c \<in> {CHR 0x09, CHR 0x0A, CHR 0x0B, CHR 0x0C, CHR 0x0D, CHR 0x20, CHR 0xA0})"

definition trimStart :: "string \<Rightarrow> string" where
  "trimStart s = dropWhile isWhiteSpace s"

definition trimEnd :: "string \<Rightarrow> string" where
  "trimEnd s = rev (dropWhile isWhiteSpace (rev s))"

definition trim :: "string \<Rightarrow> string" where
  "trim s = trimEnd (trimStart s)"

text \<open>\<open>s.split(sep)\<close> for a separator of one code unit: the pieces between the
  separators, never the empty array.  \<open>cur\<close> is the piece read so far.\<close>

fun splitAcc :: "char \<Rightarrow> string \<Rightarrow> string \<Rightarrow> string list" where
  "splitAcc sep cur [] = [cur]"
| "splitAcc sep cur (c # cs) =
     (if c = sep then cur # splitAcc sep [] cs else splitAcc sep (cur @ [c]) cs)"

definition split :: "char \<Rightarrow> string \<Rightarrow> string list" where
  "split sep s = splitAcc sep [] s"

text \<open>Reading an array element: \<open>undefined\<close> past the end.\<close>

definition elemAt :: "string list \<Rightarrow> nat \<Rightarrow> jsval" where
  "elemAt xs i = (if i < length xs then Str (xs ! i) else Undefined)"

text \<open>
  \<open>parseFloat\<close>: the argument converted to a string, leading white space skipped, then
  the longest prefix that is a decimal literal (sign, \<open>Infinity\<close>, digits, fraction,
  exponent); \<open>NaN\<close> when there is none.  The value is exact.
\<close>

definition isDigit :: "char \<Rightarrow> bool" where
  "isDigit c = (48 \<le> (of_char c :: nat) \<and> (of_char c :: nat) \<le> 57)"

definition digitsValue :: "string \<Rightarrow> nat" where
  "digitsValue ds = foldl (\<lambda>acc c. 10 * acc + (of_char c - 48)) 0 ds"

definition scale10 :: "real \<Rightarrow> int \<Rightarrow> real" where
  "scale10 m e = (if 0 \<le> e then m * 10 ^ nat e else m / 10 ^ nat (- e))"

definition exponentPart :: "string \<Rightarrow> int" where
  "exponentPart s =
     (case s of
        [] \<Rightarrow> 0
      | c # r \<Rightarrow>
          if c = CHR ''e'' \<or> c = CHR ''E'' then
            (case r of
               [] \<Rightarrow> 0
             | d # r' \<Rightarrow>
                 if d = CHR ''+'' then int (digitsValue (takeWhile isDigit r'))
                 else if d = CHR ''-'' then - int (digitsValue (takeWhile isDigit r'))
                 else int (digitsValue (takeWhile isDigit r)))
          else 0)"

definition strUnsignedDecimalLiteral :: "string \<Rightarrow> jsnum" where
  "strUnsignedDecimalLiteral s =
     (if take 8 s = ''Infinity'' then PInf
      else
        let ip = takeWhile isDigit s;
            r1 = dropWhile isDigit s;
            hasDot = (r1 \<noteq> [] \<and> hd r1 = CHR ''.'');
            fp = (if hasDot then takeWhile isDigit (tl r1) else []);
            r2 = (if hasDot then dropWhile isDigit (tl r1) else r1)
        in if ip = [] \<and> fp = [] then NaN
           else Num (scale10 (real (digitsValue (ip @ fp)))
                       (exponentPart r2 - int (length fp))))"

definition parseFloat :: "jsval \<Rightarrow> jsnum" where
  "parseFloat v =
     (case trimStart (toString v) of
        [] \<Rightarrow> NaN
      | c # r \<Rightarrow>
          if c = CHR ''+'' then strUnsignedDecimalLiteral r
          else if c = CHR ''-'' then js_neg (strUnsignedDecimalLiteral r)
          else strUnsignedDecimalLiteral (c # r))"

section \<open>Objects built by the CSV parser\<close>

text \<open>
  An object is the map of its own properties.  \<open>obj[k] = v\<close> with a string or
  \<open>undefined\<close> on the right adds or overwrites the property \<open>k\<close>, except for the key
  \<open>__proto__\<close>, whose setter ignores such values.  Reading a property that the object
  does not have gives \<open>undefined\<close> (for the keys the script reads, none of which is on
  \<open>Object.prototype\<close>).
\<close>

type_synonym jsobj = "string \<rightharpoonup> jsval"

definition setProp :: "jsobj \<Rightarrow> string \<Rightarrow> jsval \<Rightarrow> jsobj" where
  "setProp obj k v = (if k = ''__proto__'' then obj else obj(k \<mapsto> v))"

definition getProp :: "jsobj \<Rightarrow> string \<Rightarrow> jsval" where
  "getProp obj k = (case obj k of None \<Rightarrow> Undefined | Some v \<Rightarrow> v)"

section \<open>The CSV parser\<close>

text \<open>\<open>headers.forEach((header, index) => { obj[header] = row[index]; })\<close>, from the
  position \<open>index\<close> on.\<close>

fun forEachHeader :: "string list \<Rightarrow> string list \<Rightarrow> nat \<Rightarrow> jsobj \<Rightarrow> jsobj" where
  "forEachHeader [] row index obj = obj"
| "forEachHeader (header # headers) row index obj =
     forEachHeader headers row (Suc index) (setProp obj header (elemAt row index))"

text \<open>\<open>parseCSV\<close>: the loop over \<open>lines[1]\<close>, \<open>lines[2]\<close>, ... pushes one object per
  line.  No step of it can throw: \<open>split\<close> never returns an empty array, so \<open>lines[0]\<close>
  is a string, and an array read past the end is \<open>undefined\<close>.\<close>

definition parseCSV :: "string \<Rightarrow> jsobj list" where
  "parseCSV text =
     (let lines = split CHR 0x0A (trim text);
          headers = map trim (split CHR '','' (hd lines))
      in map (\<lambda>line. forEachHeader headers (map trim (split CHR '','' line)) 0 Map.empty)
           (tl lines))"

text \<open>The text of a CSV file with the given lines, joined by line feeds; a line is blank
  when it has white space only.\<close>

fun joinLines :: "string list \<Rightarrow> string" where
  "joinLines [] = []"
| "joinLines [l] = l"
| "joinLines (l # ls) = l @ CHR 0x0A # joinLines ls"

definition blank :: "string \<Rightarrow> bool" where
  "blank s = (\<forall>c \<in> set s. isWhiteSpace c)"

section \<open>Expiry classification and colour mapping\<close>

record timeInfo =
  infoText :: string
  hoursLeft :: jsnum

text \<open>
  \<open>new Date(expiry)\<close> followed by the conversion to a number that \<open>-\<close> performs: the time
  value in milliseconds, \<open>NaN\<close> for an invalid date.  The parser of date strings belongs
  to the host and is a parameter, \<open>Date_parse\<close>; so is the clock, \<open>now\<close>, the time value
  of \<open>new Date()\<close>.
\<close>

definition newDate :: "(string \<Rightarrow> int option) \<Rightarrow> jsval \<Rightarrow> jsnum" where
  "newDate Date_parse v =
     (case v of
        Undefined \<Rightarrow> NaN
      | Str s \<Rightarrow> (case Date_parse s of None \<Rightarrow> NaN | Some t \<Rightarrow> Num (of_int t)))"

definition getTimeLeft :: "(string \<Rightarrow> int option) \<Rightarrow> int \<Rightarrow> jsval \<Rightarrow> timeInfo" where
  "getTimeLeft Date_parse now expiry =
     (if expiry = Str ''N/A'' \<or> falsy expiry then \<lparr>infoText = ''No Expiry'', hoursLeft = PInf\<rparr>
      else
        let expiryDate = newDate Date_parse expiry;
            diffMs = js_sub expiryDate (Num (of_int now));
            diffHours = js_div diffMs (Num (1000 * 60 * 60))
        in if js_lt diffHours (Num 0) then \<lparr>infoText = ''Expired'', hoursLeft = Num 0\<rparr>
           else \<lparr>infoText = ''Expires in '' @ numberToString (Math_floor diffHours) @ '' hours'',
                  hoursLeft = diffHours\<rparr>)"

text \<open>\<open>getColorFromTime\<close>: four tests in the source's order.\<close>

definition getColorFromTime :: "jsnum \<Rightarrow> string" where
  "getColorFromTime h =
     (if js_seq h PInf then ''#3498db''
      else if js_le h (Num 0) then ''#7f8c8d''
      else if js_lt h (Num 24) then ''#e74c3c''
      else if js_lt h (Num 72) then ''#f1c40f''
      else ''#2ecc71'')"

text \<open>Two date strings with the time values that \<open>Date.parse\<close> gives for them, and every
  other string taken as unparseable: the host parser of the worked examples.\<close>

definition sampleDateParse :: "string \<Rightarrow> int option" where
  "sampleDateParse s =
     (if s = ''1970-01-03T02:00:00Z'' then Some 180000000
      else if s = ''1969-12-31T23:00:00Z'' then Some (- 3600000)
      else None)"

section \<open>Placing the items\<close>

text \<open>
  The \<open>div\<close> that \<open>renderItems\<close> creates for one item: the numbers behind the four
  \<open>px\<close> style strings, the background colour, and what the tooltip listener captures.
\<close>

record mapItem =
  styleWidth :: jsnum
  styleHeight :: jsnum
  styleLeft :: jsnum
  styleTop :: jsnum
  styleBackgroundColor :: string
  tooltipItem :: jsobj
  tooltipTimeInfo :: timeInfo

datatype jserror = TypeError

text \<open>The body of the \<open>forEach\<close> callback.  The only step that can throw is
  \<open>item.centre_coordinates.split\<close>, on \<open>undefined\<close>.  The container's \<open>offsetWidth\<close> and
  \<open>offsetHeight\<close> are integers.\<close>

definition renderItem ::
  "(string \<Rightarrow> int option) \<Rightarrow> int \<Rightarrow> int \<Rightarrow> int \<Rightarrow> jsobj \<Rightarrow> jserror + mapItem" where
  "renderItem Date_parse now offsetWidth offsetHeight item =
     (case getProp item ''centre_coordinates'' of
        Undefined \<Rightarrow> Inl TypeError
      | Str cc \<Rightarrow>
          let coordinates = split CHR '','' cc;
              leftPercent = parseFloat (elemAt coordinates 0);
              topPercent = parseFloat (elemAt coordinates 1);
              width = parseFloat (getProp item ''length'');
              height = parseFloat (getProp item ''breadth'');
              containerWidth = Num (of_int offsetWidth);
              containerHeight = Num (of_int offsetHeight);
              leftPos = js_sub (js_mul (js_div leftPercent (Num 100)) containerWidth)
                          (js_div width (Num 2));
              topPos = js_sub (js_mul (js_div topPercent (Num 100)) containerHeight)
                         (js_div height (Num 2));
              timeInfo = getTimeLeft Date_parse now (getProp item ''Expiry_Date'')
          in Inr \<lparr>styleWidth = width, styleHeight = height, styleLeft = leftPos,
                  styleTop = topPos,
                  styleBackgroundColor = getColorFromTime (hoursLeft timeInfo),
                  tooltipItem = item, tooltipTimeInfo = timeInfo\<rparr>)"

text \<open>\<open>items.forEach\<close>: the children appended so far, and the exception that ended the
  loop, if any.  \<open>clock i\<close> is the time at which the callback runs on item \<open>i\<close>.\<close>

fun forEachItem ::
  "(string \<Rightarrow> int option) \<Rightarrow> (nat \<Rightarrow> int) \<Rightarrow> int \<Rightarrow> int \<Rightarrow> nat \<Rightarrow> jsobj list
     \<Rightarrow> mapItem list \<Rightarrow> mapItem list \<times> jserror option" where
  "forEachItem Date_parse clock w h i [] container = (container, None)"
| "forEachItem Date_parse clock w h i (item # items) container =
     (case renderItem Date_parse (clock i) w h item of
        Inl e \<Rightarrow> (container, Some e)
      | Inr d \<Rightarrow> forEachItem Date_parse clock w h (Suc i) items (container @ [d]))"

text \<open>\<open>renderItems\<close> empties the container first.\<close>

definition renderItems ::
  "(string \<Rightarrow> int option) \<Rightarrow> (nat \<Rightarrow> int) \<Rightarrow> int \<Rightarrow> int \<Rightarrow> jsobj list
     \<Rightarrow> mapItem list \<times> jserror option" where
  "renderItems Date_parse clock w h items = forEachItem Date_parse clock w h 0 items []"

section \<open>The supply request form\<close>

text \<open>What the submit handler does before it returns, in order, for the value of the
  \<open>item-type\<close> input.  The body of the POST carries \<open>item_type\<close>, untrimmed.\<close>

datatype effect = PreventDefault | Alert string | FetchPost string string

definition handleSupplyRequest :: "string \<Rightarrow> effect list" where
  "handleSupplyRequest itemType =
     (if trim itemType = [] then
        [PreventDefault, Alert ''Please enter an item type for the supply request.'']
      else [PreventDefault, FetchPost ''/api/supply_request'' itemType])"

section \<open>Facts about the string operations\<close>

lemma splitAcc_split:
  "splitAcc sep cur s = (cur @ hd (split sep s)) # tl (split sep s)"
proof (induction s arbitrary: cur)
  case Nil
  then show ?case by (simp add: split_def)
next
  case (Cons c s)
  show ?case
  proof (cases "c = sep")
    case True
    then show ?thesis by (simp add: split_def)
  next
    case False
    have "splitAcc sep (cur @ [c]) s = ((cur @ [c]) @ hd (split sep s)) # tl (split sep s)"
      by (rule Cons.IH)
    moreover have "splitAcc sep [c] s = ([c] @ hd (split sep s)) # tl (split sep s)"
      by (rule Cons.IH)
    ultimately show ?thesis using False by (simp add: split_def)
  qed
qed

lemma split_Nil [simp]: "split sep [] = [[]]"
  by (simp add: split_def)

lemma split_Cons [simp]:
  "split sep (c # cs) =
     (if c = sep then [] # split sep cs
      else (c # hd (split sep cs)) # tl (split sep cs))"
  using splitAcc_split [of sep "[c]" cs] by (simp add: split_def)

lemma split_not_Nil: "split sep s \<noteq> []"
  by (induction s) auto

lemma split_no_sep: "sep \<notin> set s \<Longrightarrow> split sep s = [s]"
  by (induction s) auto

lemma split_append_no_sep:
  "sep \<notin> set t \<Longrightarrow> split sep (s @ t) = butlast (split sep s) @ [last (split sep s) @ t]"
proof (induction s)
  case Nil
  then show ?case by (simp add: split_no_sep)
next
  case (Cons c s)
  obtain w ws where sp: "split sep s = w # ws"
    using split_not_Nil [of sep s] by (cases "split sep s") auto
  show ?case
  proof (cases ws)
    case Nil
    with Cons sp show ?thesis by (auto simp: split_not_Nil)
  next
    case (Cons a list)
    with Cons.prems Cons.IH sp show ?thesis by (auto simp: split_not_Nil)
  qed
qed

lemma split_sep_append:
  "sep \<notin> set l \<Longrightarrow> split sep (l @ sep # t) = l # split sep t"
  by (induction l) (auto simp: split_not_Nil)

lemma split_joinLines:
  "ls \<noteq> [] \<Longrightarrow> \<forall>l \<in> set ls. CHR 0x0A \<notin> set l \<Longrightarrow> split CHR 0x0A (joinLines ls) = ls"
proof (induction ls rule: joinLines.induct)
  case 1
  then show ?case by simp
next
  case (2 l)
  then show ?case by (simp add: split_no_sep)
next
  case (3 l v va)
  then show ?case by (simp add: split_sep_append)
qed

lemma trimEnd_Nil_iff: "trimEnd s = [] \<longleftrightarrow> blank s"
  by (simp add: trimEnd_def blank_def)

lemma blank_trimStart: "blank (trimStart s) \<longleftrightarrow> blank s"
  unfolding blank_def trimStart_def
  by (metis dropWhile_eq_Nil_conv dropWhile_idem)

lemma trim_Nil_iff: "trim s = [] \<longleftrightarrow> blank s"
  by (simp add: trim_def trimEnd_Nil_iff blank_trimStart)

lemma trimStart_append: "\<not> blank s \<Longrightarrow> trimStart (s @ t) = trimStart s @ t"
  by (auto simp: trimStart_def blank_def)

lemma trimEnd_append: "\<not> blank t \<Longrightarrow> trimEnd (s @ t) = s @ trimEnd t"
  by (auto simp: trimEnd_def blank_def)

lemma trimEnd_append_blank: "blank t \<Longrightarrow> trimEnd (s @ t) = trimEnd s"
  using dropWhile_append2 [of "rev t" isWhiteSpace "rev s"]
  by (simp add: trimEnd_def blank_def)

lemma trimStart_Cons_ws: "isWhiteSpace c \<Longrightarrow> trimStart (c # s) = trimStart s"
  by (simp add: trimStart_def)

lemma trim_append_blank: "blank t \<Longrightarrow> trim (s @ t) = trim s"
proof (cases "blank s")
  case True
  assume "blank t"
  with True have "blank (s @ t)" by (auto simp: blank_def)
  with True show ?thesis by (simp add: trim_Nil_iff [THEN iffD2])
next
  case False
  assume "blank t"
  with False show ?thesis
    by (simp add: trim_def trimStart_append trimEnd_append_blank)
qed

lemma trimEnd_decomp: "\<exists>t. s = trimEnd s @ t \<and> blank t"
proof -
  have "s = rev (rev s)" by simp
  also have "\<dots> = rev (takeWhile isWhiteSpace (rev s) @ dropWhile isWhiteSpace (rev s))"
    by (simp only: takeWhile_dropWhile_id)
  also have "\<dots> = trimEnd s @ rev (takeWhile isWhiteSpace (rev s))"
    by (simp only: rev_append trimEnd_def)
  finally have "s = trimEnd s @ rev (takeWhile isWhiteSpace (rev s))" .
  moreover have "blank (rev (takeWhile isWhiteSpace (rev s)))"
    by (auto simp: blank_def dest: set_takeWhileD)
  ultimately show ?thesis by blast
qed

lemma trim_Cons_ws: "isWhiteSpace c \<Longrightarrow> trim (c # s) = trim s"
  by (simp add: trim_def trimStart_Cons_ws)

lemma map_trim_split_trimStart:
  "\<not> isWhiteSpace sep \<Longrightarrow> map trim (split sep (trimStart s)) = map trim (split sep s)"
proof (induction s)
  case Nil
  then show ?case by (simp add: trimStart_def)
next
  case (Cons c s)
  show ?case
  proof (cases "isWhiteSpace c")
    case True
    with Cons.prems have ne: "c \<noteq> sep" by auto
    obtain w ws where sp: "split sep s = w # ws"
      using split_not_Nil [of sep s] by (cases "split sep s") auto
    from True ne sp Cons show ?thesis
      by (simp add: trimStart_Cons_ws trim_Cons_ws)
  next
    case False
    then show ?thesis by (simp add: trimStart_def)
  qed
qed

lemma map_trim_split_append_blank:
  assumes "\<not> isWhiteSpace sep" "blank t"
  shows "map trim (split sep (s @ t)) = map trim (split sep s)"
proof -
  from assms have "sep \<notin> set t" by (auto simp: blank_def)
  then have "split sep (s @ t) = butlast (split sep s) @ [last (split sep s) @ t]"
    by (rule split_append_no_sep)
  then have "map trim (split sep (s @ t)) = map trim (butlast (split sep s)) @ [trim (last (split sep s))]"
    using assms(2) by (simp add: trim_append_blank)
  also have "\<dots> = map trim (butlast (split sep s) @ [last (split sep s)])" by simp
  also have "\<dots> = map trim (split sep s)" by (simp add: split_not_Nil)
  finally show ?thesis .
qed

lemma map_trim_split_trimEnd:
  assumes "\<not> isWhiteSpace sep"
  shows "map trim (split sep (trimEnd s)) = map trim (split sep s)"
proof -
  obtain t where t: "s = trimEnd s @ t" "blank t" using trimEnd_decomp by blast
  have "map trim (split sep (trimEnd s @ t)) = map trim (split sep (trimEnd s))"
    using assms t(2) by (rule map_trim_split_append_blank)
  with t(1) show ?thesis by simp
qed

lemma map_trim_split_trim:
  "\<not> isWhiteSpace sep \<Longrightarrow> map trim (split sep (trim s)) = map trim (split sep s)"
  by (simp add: trim_def map_trim_split_trimEnd map_trim_split_trimStart)

section \<open>Facts about the CSV parser\<close>

lemma forEachHeader_other:
  "k \<notin> set headers \<Longrightarrow> forEachHeader headers row n obj k = obj k"
  by (induction headers arbitrary: n obj) (auto simp: setProp_def)


lemma forEachHeader_distinct:
  "distinct headers \<Longrightarrow> j < length headers \<Longrightarrow> headers ! j \<noteq> ''__proto__'' \<Longrightarrow>
   forEachHeader headers row n obj (headers ! j) = Some (elemAt row (n + j))"
proof (induction headers arbitrary: n obj j)
  case Nil
  then show ?case by simp
next
  case (Cons h hs)
  show ?case
  proof (cases j)
    case 0
    with Cons.prems show ?thesis by (simp add: forEachHeader_other setProp_def)
  next
    case (Suc j')
    with Cons.prems Cons.IH [of j' "Suc n"] show ?thesis by simp
  qed
qed




lemma joinLines_append_last:
  "ls \<noteq> [] \<Longrightarrow> joinLines (ls @ [l]) = joinLines ls @ CHR 0x0A # l"
  by (induction ls rule: joinLines.induct) auto

lemma joinLines_Cons:
  "ls \<noteq> [] \<Longrightarrow> joinLines (l # ls) = l @ CHR 0x0A # joinLines ls"
  by (cases ls) auto

lemma set_trimStart: "set (trimStart s) \<subseteq> set s"
  by (auto simp: trimStart_def dest: set_dropWhileD)

lemma set_trimEnd: "set (trimEnd s) \<subseteq> set s"
  by (auto simp: trimEnd_def dest: set_dropWhileD)

lemma not_ws_comma: "\<not> isWhiteSpace CHR '',''"
  by (simp add: isWhiteSpace_def)

text \<open>The lines of a trimmed text.\<close>

lemma lines_of_trimmed:
  assumes nl: "\<forall>l \<in> set (hdr # rows). CHR 0x0A \<notin> set l"
    and hdr: "\<not> blank hdr" and lst: "\<not> blank (last (hdr # rows))"
  shows "\<exists>hdr' rows'. split CHR 0x0A (trim (joinLines (hdr # rows))) = hdr' # rows'
     \<and> map trim (split CHR '','' hdr') = map trim (split CHR '','' hdr)
     \<and> map (\<lambda>l. map trim (split CHR '','' l)) rows' = map (\<lambda>l. map trim (split CHR '','' l)) rows"
proof (cases rows rule: rev_cases)
  case Nil
  have "CHR 0x0A \<notin> set (trim hdr)"
    using nl set_trimStart [of hdr] set_trimEnd [of "trimStart hdr"] by (auto simp: trim_def)
  then have "split CHR 0x0A (trim (joinLines (hdr # rows))) = [trim hdr]"
    using Nil by (simp add: split_no_sep)
  then show ?thesis using Nil by (simp add: map_trim_split_trim not_ws_comma)
next
  case (snoc mid ln)
  have ln: "\<not> blank ln" using lst snoc by simp
  have "joinLines (hdr # rows) = hdr @ CHR 0x0A # joinLines (mid @ [ln])"
    using snoc by (simp add: joinLines_Cons)
  then have "trimStart (joinLines (hdr # rows)) = trimStart hdr @ CHR 0x0A # joinLines (mid @ [ln])"
    using hdr by (simp add: trimStart_append)
  also have "\<dots> = joinLines ((trimStart hdr # mid) @ [ln])"
    by (simp add: joinLines_Cons)
  also have "\<dots> = joinLines (trimStart hdr # mid) @ CHR 0x0A # ln"
    by (rule joinLines_append_last) simp
  finally have "trim (joinLines (hdr # rows)) = joinLines (trimStart hdr # mid) @ trimEnd (CHR 0x0A # ln)"
    using ln by (simp add: trim_def trimEnd_append blank_def)
  also have "trimEnd (CHR 0x0A # ln) = CHR 0x0A # trimEnd ln"
    using trimEnd_append [of ln "[CHR 0x0A]"] ln by simp
  also have "joinLines (trimStart hdr # mid) @ CHR 0x0A # trimEnd ln
      = joinLines ((trimStart hdr # mid) @ [trimEnd ln])"
    by (rule joinLines_append_last [symmetric]) simp
  finally have tr: "trim (joinLines (hdr # rows)) = joinLines (trimStart hdr # mid @ [trimEnd ln])"
    by simp
  have "\<forall>l \<in> set (trimStart hdr # mid @ [trimEnd ln]). CHR 0x0A \<notin> set l"
    using nl snoc set_trimStart [of hdr] set_trimEnd [of ln] by auto
  then have "split CHR 0x0A (trim (joinLines (hdr # rows))) = trimStart hdr # mid @ [trimEnd ln]"
    unfolding tr by (intro split_joinLines) simp_all
  then show ?thesis
    using snoc by (simp add: map_trim_split_trimStart map_trim_split_trimEnd not_ws_comma)
qed

lemma parseCSV_lines:
  assumes "\<forall>l \<in> set (hdr # rows). CHR 0x0A \<notin> set l"
    and "\<not> blank hdr" and "\<not> blank (last (hdr # rows))" and "blank ws"
  shows "parseCSV (joinLines (hdr # rows) @ ws)
    = map (\<lambda>l. forEachHeader (map trim (split CHR '','' hdr)) (map trim (split CHR '','' l)) 0 Map.empty) rows"
proof -
  obtain hdr' rows' where
    sp: "split CHR 0x0A (trim (joinLines (hdr # rows))) = hdr' # rows'"
    and h: "map trim (split CHR '','' hdr') = map trim (split CHR '','' hdr)"
    and r: "map (\<lambda>l. map trim (split CHR '','' l)) rows' = map (\<lambda>l. map trim (split CHR '','' l)) rows"
    using lines_of_trimmed [OF assms(1-3)] by blast
  let ?H = "map trim (split CHR '','' hdr)"
  have "parseCSV (joinLines (hdr # rows) @ ws)
      = map (\<lambda>row. forEachHeader ?H row 0 Map.empty) (map (\<lambda>l. map trim (split CHR '','' l)) rows')"
    using sp h assms(4) by (simp add: parseCSV_def trim_append_blank Let_def comp_def)
  also have "\<dots> = map (\<lambda>row. forEachHeader ?H row 0 Map.empty) (map (\<lambda>l. map trim (split CHR '','' l)) rows)"
    by (simp only: r)
  finally show ?thesis by (simp add: comp_def)
qed

section \<open>Properties of the colour mapping\<close>

text \<open>
  Claim C1.  For every real number and for \<open>+Infinity\<close> the colour mapping returns one of
  the five colour tokens and follows the table: \<open>+Infinity\<close> is blue, a value at most 0 is
  grey, a value strictly between 0 and 24 is red, a value from 24 up to but excluding 72 is
  yellow, and a value of 72 or more is green; exactly 24 is yellow and exactly 72 is green.
\<close>

theorem getColorFromTime_table:
  "getColorFromTime PInf = ''#3498db''
   \<and> (r \<le> 0 \<longrightarrow> getColorFromTime (Num r) = ''#7f8c8d'')
   \<and> (0 < r \<and> r < 24 \<longrightarrow> getColorFromTime (Num r) = ''#e74c3c'')
   \<and> (24 \<le> r \<and> r < 72 \<longrightarrow> getColorFromTime (Num r) = ''#f1c40f'')
   \<and> (72 \<le> r \<longrightarrow> getColorFromTime (Num r) = ''#2ecc71'')
   \<and> getColorFromTime (Num 24) = ''#f1c40f''
   \<and> getColorFromTime (Num 72) = ''#2ecc71''
   \<and> getColorFromTime h \<in> {''#3498db'', ''#7f8c8d'', ''#e74c3c'', ''#f1c40f'', ''#2ecc71''}"
  by (cases h) (simp_all add: getColorFromTime_def)

theorem getColorFromTime_table_witness:
  "(-5::real) \<le> 0 \<and> getColorFromTime (Num (-5)) = ''#7f8c8d''
   \<and> (0::real) \<le> 0 \<and> getColorFromTime (Num 0) = ''#7f8c8d''
   \<and> (0::real) < 12 \<and> (12::real) < 24 \<and> getColorFromTime (Num 12) = ''#e74c3c''
   \<and> (24::real) \<le> 30 \<and> (30::real) < 72 \<and> getColorFromTime (Num 30) = ''#f1c40f''
   \<and> (72::real) \<le> 100 \<and> getColorFromTime (Num 100) = ''#2ecc71''"
  using getColorFromTime_table [of "-5" NaN] getColorFromTime_table [of 0 NaN]
    getColorFromTime_table [of 12 NaN] getColorFromTime_table [of 30 NaN]
    getColorFromTime_table [of 100 NaN]
  by simp

section \<open>Properties of the CSV parser\<close>

text \<open>
  Claim C6, as stated: every record maps each trimmed header name to the trimmed value at
  the same position.  It fails when a header name occurs twice: in \<open>a,a\<close> over \<open>1,2\<close> the
  name at position 0 is mapped to \<open>2\<close>, the value of the later column, and not to \<open>1\<close>.
  It fails for the header name \<open>__proto__\<close> as well, which is never stored.
\<close>

theorem parseCSV_repeated_header:
  "parseCSV ''a,a\<newline>1,2'' = [[''a'' \<mapsto> Str ''2'']]
   \<and> trim (split CHR '','' ''a,a'' ! 0) = ''a''
   \<and> trim (split CHR '','' ''1,2'' ! 0) = ''1''
   \<and> getProp (parseCSV ''a,a\<newline>1,2'' ! 0) ''a'' = Str ''2''
   \<and> parseCSV ''__proto__\<newline>1'' = [Map.empty]"
  by (simp del: split_Cons add: split_def parseCSV_def trim_def trimStart_def trimEnd_def isWhiteSpace_def
      setProp_def elemAt_def getProp_def)

text \<open>
  Claim C6, amended.  A CSV text made of a header line and N data lines, joined by line
  feeds, none of them containing a line feed, with a header line and a last line that are
  not blank, and with trailing white space (blank lines) after it or not, is parsed into N
  records, in the order of the lines, and the trailing white space changes nothing.  When
  the trimmed header names are pairwise distinct and none is \<open>__proto__\<close>, record \<open>i\<close> maps
  the trimmed header name at position \<open>j\<close> to the trimmed field at position \<open>j\<close> of data
  line \<open>i\<close>, and to \<open>undefined\<close> where the line has no field at that position.
\<close>

theorem parseCSV_records:
  assumes "\<forall>l \<in> set (hdr # rows). CHR 0x0A \<notin> set l"
    and "\<not> blank hdr" and "\<not> blank (last (hdr # rows))"
    and "blank ws"
  shows "length (parseCSV (joinLines (hdr # rows) @ ws)) = length rows
    \<and> parseCSV (joinLines (hdr # rows) @ ws) = parseCSV (joinLines (hdr # rows))
    \<and> (distinct (map trim (split CHR '','' hdr))
         \<and> ''__proto__'' \<notin> set (map trim (split CHR '','' hdr)) \<longrightarrow>
         (\<forall>i < length rows. \<forall>j < length (split CHR '','' hdr).
            getProp (parseCSV (joinLines (hdr # rows) @ ws) ! i) (trim (split CHR '','' hdr ! j))
              = (if j < length (split CHR '','' (rows ! i))
                 then Str (trim (split CHR '','' (rows ! i) ! j)) else Undefined)))"
proof -
  let ?H = "map trim (split CHR '','' hdr)"
  let ?rec = "\<lambda>l. forEachHeader ?H (map trim (split CHR '','' l)) 0 Map.empty"
  have eq: "parseCSV (joinLines (hdr # rows) @ ws) = map ?rec rows"
    using assms by (rule parseCSV_lines)
  have "blank []" by (simp add: blank_def)
  with assms(1-3) have "parseCSV (joinLines (hdr # rows) @ []) = map ?rec rows"
    by (rule parseCSV_lines)
  then have eq0: "parseCSV (joinLines (hdr # rows)) = map ?rec rows" by simp
  have "getProp (?rec (rows ! i)) (trim (split CHR '','' hdr ! j))
      = (if j < length (split CHR '','' (rows ! i))
         then Str (trim (split CHR '','' (rows ! i) ! j)) else Undefined)"
    if d: "distinct ?H" and p: "''__proto__'' \<notin> set ?H"
      and "j < length (split CHR '','' hdr)" for i j
  proof -
    from that(3) have j: "j < length ?H" and hj: "?H ! j = trim (split CHR '','' hdr ! j)"
      by simp_all
    from p j have "?H ! j \<noteq> ''__proto__''" by (metis nth_mem)
    with d j
    have "forEachHeader ?H (map trim (split CHR '','' (rows ! i))) 0 Map.empty (?H ! j)
        = Some (elemAt (map trim (split CHR '','' (rows ! i))) (0 + j))"
      by (rule forEachHeader_distinct)
    with hj show ?thesis by (simp add: getProp_def elemAt_def)
  qed
  with eq eq0 show ?thesis by simp
qed

theorem parseCSV_records_witness:
  "CHR 0x0A \<notin> set ''a,b'' \<and> CHR 0x0A \<notin> set ''1,2'' \<and> CHR 0x0A \<notin> set ''3,4''
   \<and> \<not> blank ''a,b'' \<and> \<not> blank (last [''a,b'', ''1,2'', ''3,4''])
   \<and> distinct (map trim (split CHR '','' ''a,b''))
   \<and> ''__proto__'' \<notin> set (map trim (split CHR '','' ''a,b''))
   \<and> blank [CHR 0x0A, CHR 0x20, CHR 0x0A]
   \<and> parseCSV ''a,b\<newline>1,2\<newline>3,4''
       = [[''a'' \<mapsto> Str ''1'', ''b'' \<mapsto> Str ''2''], [''a'' \<mapsto> Str ''3'', ''b'' \<mapsto> Str ''4'']]
   \<and> parseCSV ''a,b\<newline>1,2\<newline>3,4\<newline> \<newline>'' = parseCSV ''a,b\<newline>1,2\<newline>3,4''
   \<and> length (parseCSV ''a,b\<newline>1,2\<newline>3,4\<newline> \<newline>'') = 2
   \<and> getProp (parseCSV ''a,b\<newline>1,2\<newline>3,4\<newline> \<newline>'' ! 1) ''b'' = Str ''4''"
proof -
  have h1: "\<forall>l \<in> set (''a,b'' # [''1,2'', ''3,4'']). CHR 0x0A \<notin> set l" by simp
  have h2: "\<not> blank ''a,b''" by (simp add: blank_def isWhiteSpace_def)
  have h3: "\<not> blank (last (''a,b'' # [''1,2'', ''3,4'']))" by (simp add: blank_def isWhiteSpace_def)
  have sp: "map trim (split CHR '','' ''a,b'') = [''a'', ''b'']"
    by (simp del: split_Cons add: split_def trim_def trimStart_def trimEnd_def isWhiteSpace_def)
  have h4: "distinct (map trim (split CHR '','' ''a,b''))" unfolding sp by simp
  have h5: "''__proto__'' \<notin> set (map trim (split CHR '','' ''a,b''))" unfolding sp by simp
  have h6: "blank [CHR 0x0A, CHR 0x20, CHR 0x0A]" by (simp add: blank_def isWhiteSpace_def)
  have ev: "parseCSV ''a,b\<newline>1,2\<newline>3,4''
       = [[''a'' \<mapsto> Str ''1'', ''b'' \<mapsto> Str ''2''], [''a'' \<mapsto> Str ''3'', ''b'' \<mapsto> Str ''4'']]"
    by (simp del: split_Cons add: split_def parseCSV_def trim_def trimStart_def trimEnd_def isWhiteSpace_def
        setProp_def elemAt_def)
  note t = parseCSV_records [OF h1 h2 h3 h6]
  have l: "length (parseCSV ''a,b\<newline>1,2\<newline>3,4\<newline> \<newline>'') = 2"
    using t [THEN conjunct1] by simp
  have e: "parseCSV ''a,b\<newline>1,2\<newline>3,4\<newline> \<newline>'' = parseCSV ''a,b\<newline>1,2\<newline>3,4''"
    using t [THEN conjunct2, THEN conjunct1] by simp
  have "Suc 0 < length [''1,2'', ''3,4''] \<and> Suc 0 < length (split CHR '','' ''a,b'')"
    by simp
  with t [THEN conjunct2, THEN conjunct2] h4 h5
  have "getProp (parseCSV (joinLines (''a,b'' # [''1,2'', ''3,4'']) @ [CHR 0x0A, CHR 0x20, CHR 0x0A]) ! Suc 0)
        (trim (split CHR '','' ''a,b'' ! Suc 0))
      = (if Suc 0 < length (split CHR '','' ([''1,2'', ''3,4''] ! Suc 0))
         then Str (trim (split CHR '','' ([''1,2'', ''3,4''] ! Suc 0) ! Suc 0)) else Undefined)"
    by blast
  then have g: "getProp (parseCSV ''a,b\<newline>1,2\<newline>3,4\<newline> \<newline>'' ! 1) ''b'' = Str ''4''"
    by (simp del: split_Cons add: split_def trim_def trimStart_def trimEnd_def isWhiteSpace_def)
  from h2 h3 h4 h5 h6 ev l e g show ?thesis by simp
qed



section \<open>Properties of the expiry classification\<close>

lemma getTimeLeft_date:
  assumes "Date_parse s = Some t" and "s \<noteq> []" and "s \<noteq> ''N/A''"
  shows "getTimeLeft Date_parse now (Str s) =
    (let diffHours = (real_of_int t - real_of_int now) / 3600000
     in if diffHours < 0 then \<lparr>infoText = ''Expired'', hoursLeft = Num 0\<rparr>
        else \<lparr>infoText = ''Expires in '' @ showInt \<lfloor>diffHours\<rfloor> @ '' hours'',
               hoursLeft = Num diffHours\<rparr>)"
  using assms by (simp add: getTimeLeft_def falsy_def newDate_def Let_def)



text \<open>
  Claim C3.  At every instant, the classification of an absent value, of the empty string
  and of the string \<open>N/A\<close> is the text \<open>No Expiry\<close> with \<open>hoursLeft = +Infinity\<close>.
\<close>

theorem getTimeLeft_no_expiry:
  "getTimeLeft Date_parse now Undefined = \<lparr>infoText = ''No Expiry'', hoursLeft = PInf\<rparr>
   \<and> getTimeLeft Date_parse now (Str []) = \<lparr>infoText = ''No Expiry'', hoursLeft = PInf\<rparr>
   \<and> getTimeLeft Date_parse now (Str ''N/A'') = \<lparr>infoText = ''No Expiry'', hoursLeft = PInf\<rparr>"
  by (simp add: getTimeLeft_def falsy_def)

text \<open>
  Claim C10.  For an expiry string that is not empty, is not \<open>N/A\<close> and does not parse
  as a datetime, the classification is the text \<open>Expires in NaN hours\<close> with
  \<open>hoursLeft = NaN\<close>, and the colour of \<open>NaN\<close> is green, \<open>#2ecc71\<close>.
\<close>

theorem getTimeLeft_invalid_date:
  assumes "Date_parse s = None" and "s \<noteq> []" and "s \<noteq> ''N/A''"
  shows "getTimeLeft Date_parse now (Str s)
      = \<lparr>infoText = ''Expires in NaN hours'', hoursLeft = NaN\<rparr>
    \<and> getColorFromTime (hoursLeft (getTimeLeft Date_parse now (Str s))) = ''#2ecc71''
    \<and> getColorFromTime NaN = ''#2ecc71''"
  using assms by (simp add: getTimeLeft_def falsy_def newDate_def Let_def getColorFromTime_def)

theorem getTimeLeft_invalid_date_witness:
  "sampleDateParse ''garbage'' = None
   \<and> getTimeLeft sampleDateParse 86400000 (Str ''garbage'')
       = \<lparr>infoText = ''Expires in NaN hours'', hoursLeft = NaN\<rparr>
   \<and> getColorFromTime (hoursLeft (getTimeLeft sampleDateParse 86400000 (Str ''garbage'')))
       = ''#2ecc71''"
proof -
  have p: "sampleDateParse ''garbage'' = None" by (simp add: sampleDateParse_def)
  have "''garbage'' \<noteq> []" and "''garbage'' \<noteq> ''N/A''" by simp_all
  with p show ?thesis
    using getTimeLeft_invalid_date [of sampleDateParse "''garbage''" 86400000] by simp
qed

text \<open>
  Claim C8, as stated: for every expiry string and instants \<open>now1 \<le> now2\<close>, \<open>hoursLeft\<close> at
  \<open>now2\<close> is less than or equal to \<open>hoursLeft\<close> at \<open>now1\<close>.  It fails for a string that
  does not parse: \<open>hoursLeft\<close> is \<open>NaN\<close> at both instants, and \<open>NaN <= NaN\<close> is false.
\<close>

theorem hoursLeft_not_antitone_unparseable:
  "(0::int) \<le> 3600000
   \<and> hoursLeft (getTimeLeft sampleDateParse 0 (Str ''garbage'')) = NaN
   \<and> hoursLeft (getTimeLeft sampleDateParse 3600000 (Str ''garbage'')) = NaN
   \<and> \<not> js_le (hoursLeft (getTimeLeft sampleDateParse 3600000 (Str ''garbage'')))
           (hoursLeft (getTimeLeft sampleDateParse 0 (Str ''garbage'')))"
  by (simp add: getTimeLeft_def falsy_def newDate_def sampleDateParse_def Let_def)

text \<open>
  Claim C8, amended.  For an expiry value that is absent, empty, \<open>N/A\<close> or a string that
  parses to a valid datetime, and instants \<open>now1 \<le> now2\<close>, \<open>hoursLeft\<close> at \<open>now2\<close> is less
  than or equal to \<open>hoursLeft\<close> at \<open>now1\<close>.
\<close>

theorem hoursLeft_antitone:
  assumes "now1 \<le> now2"
    and "expiry = Undefined \<or> expiry = Str [] \<or> expiry = Str ''N/A''
         \<or> (\<exists>s t. expiry = Str s \<and> Date_parse s = Some t)"
  shows "js_le (hoursLeft (getTimeLeft Date_parse now2 expiry))
               (hoursLeft (getTimeLeft Date_parse now1 expiry))"
proof -
  consider (none) "expiry = Undefined \<or> expiry = Str [] \<or> expiry = Str ''N/A''"
    | (date) s t where "expiry = Str s" "Date_parse s = Some t" "s \<noteq> []" "s \<noteq> ''N/A''"
    using assms(2) by blast
  then show ?thesis
  proof cases
    case none
    then show ?thesis by (auto simp: getTimeLeft_def falsy_def)
  next
    case date
    let ?d1 = "(real_of_int t - real_of_int now1) / 3600000"
    let ?d2 = "(real_of_int t - real_of_int now2) / 3600000"
    from assms(1) have le: "?d2 \<le> ?d1" by (simp add: divide_right_mono)
    have h1: "hoursLeft (getTimeLeft Date_parse now1 expiry) = Num (if ?d1 < 0 then 0 else ?d1)"
      using getTimeLeft_date [of Date_parse s t now1] date by (simp add: Let_def)
    have h2: "hoursLeft (getTimeLeft Date_parse now2 expiry) = Num (if ?d2 < 0 then 0 else ?d2)"
      using getTimeLeft_date [of Date_parse s t now2] date by (simp add: Let_def)
    from le show ?thesis unfolding h1 h2 by auto
  qed
qed

theorem hoursLeft_antitone_witness:
  "(0::int) \<le> 3600000
   \<and> sampleDateParse ''1970-01-03T02:00:00Z'' = Some 180000000
   \<and> hoursLeft (getTimeLeft sampleDateParse 0 (Str ''1970-01-03T02:00:00Z'')) = Num 50
   \<and> hoursLeft (getTimeLeft sampleDateParse 3600000 (Str ''1970-01-03T02:00:00Z'')) = Num 49
   \<and> js_le (hoursLeft (getTimeLeft sampleDateParse 3600000 (Str ''1970-01-03T02:00:00Z'')))
          (hoursLeft (getTimeLeft sampleDateParse 0 (Str ''1970-01-03T02:00:00Z'')))"
proof -
  have p: "sampleDateParse ''1970-01-03T02:00:00Z'' = Some 180000000"
    by (simp add: sampleDateParse_def)
  have a: "hoursLeft (getTimeLeft sampleDateParse 0 (Str ''1970-01-03T02:00:00Z'')) = Num 50"
    by (simp add: getTimeLeft_def falsy_def newDate_def p Let_def)
  have b: "hoursLeft (getTimeLeft sampleDateParse 3600000 (Str ''1970-01-03T02:00:00Z'')) = Num 49"
    by (simp add: getTimeLeft_def falsy_def newDate_def p Let_def)
  have le: "(0::int) \<le> 3600000" by simp
  have "\<exists>s t. Str ''1970-01-03T02:00:00Z'' = Str s \<and> sampleDateParse s = Some t"
    using p by blast
  then have c: "js_le (hoursLeft (getTimeLeft sampleDateParse 3600000 (Str ''1970-01-03T02:00:00Z'')))
          (hoursLeft (getTimeLeft sampleDateParse 0 (Str ''1970-01-03T02:00:00Z'')))"
    using hoursLeft_antitone [OF le, of "Str ''1970-01-03T02:00:00Z''" sampleDateParse] by blast
  from le p a b c show ?thesis by simp
qed

section \<open>Properties of the placement\<close>

lemma renderItem_Str:
  assumes "getProp item ''centre_coordinates'' = Str cc"
  shows "renderItem Date_parse now w h item =
    Inr \<lparr>styleWidth = parseFloat (getProp item ''length''),
         styleHeight = parseFloat (getProp item ''breadth''),
         styleLeft = js_sub (js_mul (js_div (parseFloat (elemAt (split CHR '','' cc) 0)) (Num 100))
                       (Num (of_int w)))
                     (js_div (parseFloat (getProp item ''length'')) (Num 2)),
         styleTop = js_sub (js_mul (js_div (parseFloat (elemAt (split CHR '','' cc) 1)) (Num 100))
                      (Num (of_int h)))
                    (js_div (parseFloat (getProp item ''breadth'')) (Num 2)),
         styleBackgroundColor =
           getColorFromTime (hoursLeft (getTimeLeft Date_parse now (getProp item ''Expiry_Date''))),
         tooltipItem = item,
         tooltipTimeInfo = getTimeLeft Date_parse now (getProp item ''Expiry_Date'')\<rparr>"
  using assms by (simp add: renderItem_def Let_def)

lemma forEachItem_no_throw:
  assumes "\<forall>item \<in> set items. \<exists>cc. getProp item ''centre_coordinates'' = Str cc"
  shows "forEachItem Date_parse clock w h i items container =
    (container @ map (\<lambda>k. projr (renderItem Date_parse (clock (i + k)) w h (items ! k)))
                   [0..<length items], None)"
  using assms
proof (induction items arbitrary: i container)
  case Nil
  then show ?case by simp
next
  case (Cons item items)
  from Cons.prems obtain cc where cc: "getProp item ''centre_coordinates'' = Str cc"
    by auto
  obtain d where d: "renderItem Date_parse (clock i) w h item = Inr d"
    using renderItem_Str [OF cc] by blast
  have ih: "forEachItem Date_parse clock w h (Suc i) items (container @ [d]) =
    ((container @ [d]) @ map (\<lambda>k. projr (renderItem Date_parse (clock (Suc i + k)) w h (items ! k)))
                   [0..<length items], None)"
    using Cons.prems by (intro Cons.IH) simp
  have "map (\<lambda>k. projr (renderItem Date_parse (clock (i + k)) w h ((item # items) ! k)))
          [0..<length (item # items)]
      = d # map (\<lambda>k. projr (renderItem Date_parse (clock (Suc i + k)) w h (items ! k)))
          [0..<length items]"
    using d by (simp add: upt_conv_Cons map_Suc_upt [symmetric] comp_def del: upt_Suc)
  with d ih show ?case by simp
qed



text \<open>
  Claim C4, as stated: an item whose \<open>centre_coordinates\<close> cannot be parsed is not placed
  and the failure is signalled.  It fails: for the record that the parser makes of the
  row \<open>abc,40,20\<close> the render ends without an exception, and the item is in the
  container with \<open>NaN\<close> as its left and top positions.
\<close>

theorem renderItems_places_unparseable:
  "parseCSV ''centre_coordinates,length,breadth\<newline>abc,40,20''
     = [[''centre_coordinates'' \<mapsto> Str ''abc'', ''length'' \<mapsto> Str ''40'', ''breadth'' \<mapsto> Str ''20'']]
   \<and> renderItems sampleDateParse (\<lambda>i. 0) 400 200
     [[''centre_coordinates'' \<mapsto> Str ''abc'', ''length'' \<mapsto> Str ''40'', ''breadth'' \<mapsto> Str ''20'']]
   = ([\<lparr>styleWidth = Num 40, styleHeight = Num 20, styleLeft = NaN, styleTop = NaN,
        styleBackgroundColor = ''#3498db'',
        tooltipItem = [''centre_coordinates'' \<mapsto> Str ''abc'', ''length'' \<mapsto> Str ''40'',
                       ''breadth'' \<mapsto> Str ''20''],
        tooltipTimeInfo = \<lparr>infoText = ''No Expiry'', hoursLeft = PInf\<rparr>\<rparr>], None)"
proof -
  have pf: "parseFloat (Str ''abc'') = NaN" "parseFloat Undefined = NaN"
    "parseFloat (Str ''40'') = Num 40" "parseFloat (Str ''20'') = Num 20"
    by (simp_all add: parseFloat_def toString_def trimStart_def isWhiteSpace_def
        strUnsignedDecimalLiteral_def isDigit_def digitsValue_def scale10_def exponentPart_def)
  have csv: "parseCSV ''centre_coordinates,length,breadth\<newline>abc,40,20''
     = [[''centre_coordinates'' \<mapsto> Str ''abc'', ''length'' \<mapsto> Str ''40'', ''breadth'' \<mapsto> Str ''20'']]"
    by (simp del: split_Cons add: split_def parseCSV_def trim_def trimStart_def trimEnd_def isWhiteSpace_def
        setProp_def elemAt_def)
  have "renderItems sampleDateParse (\<lambda>i. 0) 400 200
     [[''centre_coordinates'' \<mapsto> Str ''abc'', ''length'' \<mapsto> Str ''40'', ''breadth'' \<mapsto> Str ''20'']]
   = ([\<lparr>styleWidth = Num 40, styleHeight = Num 20, styleLeft = NaN, styleTop = NaN,
        styleBackgroundColor = ''#3498db'',
        tooltipItem = [''centre_coordinates'' \<mapsto> Str ''abc'', ''length'' \<mapsto> Str ''40'',
                       ''breadth'' \<mapsto> Str ''20''],
        tooltipTimeInfo = \<lparr>infoText = ''No Expiry'', hoursLeft = PInf\<rparr>\<rparr>], None)"
    by (simp add: renderItems_def renderItem_def getProp_def elemAt_def pf Let_def
        getTimeLeft_def falsy_def getColorFromTime_def)
  with csv show ?thesis by (rule conjI)
qed

text \<open>
  Claim C4, amended.  When every item has a string as its \<open>centre_coordinates\<close>, the render
  signals nothing and places every item, in order.  An item whose first coordinate part
  does not parse has \<open>NaN\<close> as its left position, and an item whose coordinate string has
  no comma, or whose second part does not parse, has \<open>NaN\<close> as its top position.
\<close>

theorem renderItems_unparseable:
  assumes "\<forall>item \<in> set items. \<exists>c. getProp item ''centre_coordinates'' = Str c"
    and "i < length items"
    and "getProp (items ! i) ''centre_coordinates'' = Str cc"
  shows "snd (renderItems Date_parse clock w h items) = None
    \<and> length (fst (renderItems Date_parse clock w h items)) = length items
    \<and> (parseFloat (elemAt (split CHR '','' cc) 0) = NaN
         \<longrightarrow> styleLeft (fst (renderItems Date_parse clock w h items) ! i) = NaN)
    \<and> (length (split CHR '','' cc) < 2 \<or> parseFloat (elemAt (split CHR '','' cc) 1) = NaN
         \<longrightarrow> styleTop (fst (renderItems Date_parse clock w h items) ! i) = NaN)"
proof -
  have r: "renderItems Date_parse clock w h items =
    (map (\<lambda>k. projr (renderItem Date_parse (clock k) w h (items ! k))) [0..<length items], None)"
    using forEachItem_no_throw [OF assms(1), of Date_parse clock w h 0 "[]"]
    by (simp add: renderItems_def)
  have u: "parseFloat Undefined = NaN"
    by (simp add: parseFloat_def toString_def trimStart_def isWhiteSpace_def
        strUnsignedDecimalLiteral_def isDigit_def)
  have nocomma: "parseFloat (elemAt (split CHR '','' cc) 1) = NaN"
    if "length (split CHR '','' cc) < 2"
    using that by (simp add: elemAt_def u)
  from assms(2) have "fst (renderItems Date_parse clock w h items) ! i
      = projr (renderItem Date_parse (clock i) w h (items ! i))"
    by (simp add: r)
  then show ?thesis
    using nocomma by (auto simp: r renderItem_Str [OF assms(3)])
qed

theorem renderItems_unparseable_witness:
  "getProp [''centre_coordinates'' \<mapsto> Str ''abc''] ''centre_coordinates'' = Str ''abc''
   \<and> length (split CHR '','' ''abc'') < 2
   \<and> parseFloat (elemAt (split CHR '','' ''abc'') 0) = NaN
   \<and> snd (renderItems sampleDateParse (\<lambda>i. 0) 400 200 [[''centre_coordinates'' \<mapsto> Str ''abc'']])
       = None
   \<and> length (fst (renderItems sampleDateParse (\<lambda>i. 0) 400 200
                     [[''centre_coordinates'' \<mapsto> Str ''abc'']])) = 1
   \<and> styleLeft (fst (renderItems sampleDateParse (\<lambda>i. 0) 400 200
                       [[''centre_coordinates'' \<mapsto> Str ''abc'']]) ! 0) = NaN
   \<and> styleTop (fst (renderItems sampleDateParse (\<lambda>i. 0) 400 200
                      [[''centre_coordinates'' \<mapsto> Str ''abc'']]) ! 0) = NaN"
proof -
  let ?items = "[[''centre_coordinates'' \<mapsto> Str ''abc'']] :: jsobj list"
  have g: "getProp [''centre_coordinates'' \<mapsto> Str ''abc''] ''centre_coordinates'' = Str ''abc''"
    by (simp add: getProp_def)
  have a: "\<forall>item \<in> set ?items. \<exists>c. getProp item ''centre_coordinates'' = Str c"
    using g by simp
  have i: "0 < length ?items" by simp
  have g': "getProp (?items ! 0) ''centre_coordinates'' = Str ''abc''" using g by simp
  have n: "length (split CHR '','' ''abc'') < 2" by simp
  have p: "parseFloat (elemAt (split CHR '','' ''abc'') 0) = NaN"
    by (simp add: elemAt_def parseFloat_def toString_def trimStart_def isWhiteSpace_def
        strUnsignedDecimalLiteral_def isDigit_def)
  from renderItems_unparseable [OF a i g', of sampleDateParse "\<lambda>i. 0" 400 200] g n p
  show ?thesis by simp
qed

section \<open>Parsed records and the coordinate format\<close>

text \<open>
  \<open>parseCSV\<close> splits every line at every comma, so no field of a parsed record contains
  a comma, while \<open>renderItems\<close> expects \<open>centre_coordinates\<close> in the format \<open>x,y\<close>.
  On records that come from \<open>parseCSV\<close> the second coordinate is therefore always
  missing, and every item that is placed has \<open>NaN\<close> as its top position.
\<close>

lemma split_parts_no_sep: "p \<in> set (split sep s) \<Longrightarrow> sep \<notin> set p"
proof (induction s arbitrary: p)
  case Nil
  then show ?case by simp
next
  case (Cons c s)
  obtain w ws where sp: "split sep s = w # ws"
    using split_not_Nil [of sep s] by (cases "split sep s") auto
  with Cons show ?case by (auto split: if_splits)
qed

lemma set_trim: "set (trim s) \<subseteq> set s"
  using set_trimStart [of s] set_trimEnd [of "trimStart s"] by (auto simp: trim_def)

lemma forEachHeader_values:
  "forEachHeader headers row n obj k = Some (Str v) \<Longrightarrow>
   obj k = Some (Str v) \<or> v \<in> set row"
proof (induction headers arbitrary: n obj)
  case Nil
  then show ?case by simp
next
  case (Cons h hs)
  from Cons.IH [OF Cons.prems [simplified]]
  show ?case by (auto simp: setProp_def elemAt_def split: if_splits)
qed

lemma parseCSV_field_no_comma:
  assumes "item \<in> set (parseCSV text)" and "item k = Some (Str v)"
  shows "CHR '','' \<notin> set v"
proof -
  from assms(1) obtain headers line where
    "item = forEachHeader headers (map trim (split CHR '','' line)) 0 Map.empty"
    by (auto simp: parseCSV_def Let_def)
  with assms(2) have "v \<in> set (map trim (split CHR '','' line))"
    using forEachHeader_values [of headers "map trim (split CHR '','' line)" 0 Map.empty k v]
    by simp
  then obtain p where "p \<in> set (split CHR '','' line)" "v = trim p" by auto
  then show ?thesis using split_parts_no_sep [of p "CHR '',''" line] set_trim [of p] by auto
qed

lemma forEachItem_placed:
  "d \<in> set (fst (forEachItem Date_parse clock w h i items container)) \<Longrightarrow>
   d \<in> set container \<or> (\<exists>item \<in> set items. \<exists>now. renderItem Date_parse now w h item = Inr d)"
proof (induction items arbitrary: i container)
  case Nil
  then show ?case by simp
next
  case (Cons item items)
  show ?case
  proof (cases "renderItem Date_parse (clock i) w h item")
    case (Inl e)
    with Cons.prems show ?thesis by simp
  next
    case (Inr d')
    with Cons.prems
    have "d \<in> set (fst (forEachItem Date_parse clock w h (Suc i) items (container @ [d'])))"
      by simp
    from Cons.IH [OF this] Inr show ?thesis by auto
  qed
qed

lemma parsed_items_top_NaN:
  assumes "d \<in> set (fst (renderItems Date_parse clock w h (parseCSV text)))"
  shows "styleTop d = NaN"
proof -
  from assms obtain item now where item: "item \<in> set (parseCSV text)"
    and d: "renderItem Date_parse now w h item = Inr d"
    using forEachItem_placed [of d Date_parse clock w h 0 "parseCSV text" "[]"]
    by (auto simp: renderItems_def)
  from d obtain cc where cc: "getProp item ''centre_coordinates'' = Str cc"
    by (cases "getProp item ''centre_coordinates''") (auto simp: renderItem_def)
  then have "item ''centre_coordinates'' = Some (Str cc)"
    by (auto simp: getProp_def split: option.splits)
  with item have "CHR '','' \<notin> set cc" by (rule parseCSV_field_no_comma)
  then have "split CHR '','' cc = [cc]" by (rule split_no_sep)
  moreover have "parseFloat Undefined = NaN"
    by (simp add: parseFloat_def toString_def trimStart_def isWhiteSpace_def
        strUnsignedDecimalLiteral_def isDigit_def)
  ultimately show ?thesis
    using d by (auto simp: renderItem_Str [OF cc] elemAt_def)
qed

section \<open>Properties of the supply request handler\<close>

text \<open>
  Claim C9.  When the item-type input is empty or has white space only, the handler shows
  the alert and returns without issuing the POST request; for every other input it issues
  the POST request to \<open>/api/supply_request\<close> with the input as \<open>item_type\<close>.
\<close>

theorem handleSupplyRequest_guard:
  "(blank itemType \<longrightarrow>
      handleSupplyRequest itemType
        = [PreventDefault, Alert ''Please enter an item type for the supply request.'']
      \<and> (\<forall>url body. FetchPost url body \<notin> set (handleSupplyRequest itemType)))
   \<and> (\<not> blank itemType \<longrightarrow>
      handleSupplyRequest itemType = [PreventDefault, FetchPost ''/api/supply_request'' itemType])"
  by (simp add: handleSupplyRequest_def trim_Nil_iff)

theorem handleSupplyRequest_guard_witness:
  "blank [] \<and> handleSupplyRequest []
       = [PreventDefault, Alert ''Please enter an item type for the supply request.'']
   \<and> blank '' \<newline> ''
   \<and> handleSupplyRequest '' \<newline> ''
       = [PreventDefault, Alert ''Please enter an item type for the supply request.'']
   \<and> \<not> blank '' water ''
   \<and> handleSupplyRequest '' water ''
       = [PreventDefault, FetchPost ''/api/supply_request'' '' water '']"
proof -
  have b0: "blank []" and b1: "blank '' \<newline> ''" and b2: "\<not> blank '' water ''"
    by (simp_all add: blank_def isWhiteSpace_def)
  from b0 b1 b2 handleSupplyRequest_guard [of "[]"] handleSupplyRequest_guard [of "'' \<newline> ''"]
    handleSupplyRequest_guard [of "'' water ''"]
  show ?thesis by blast
qed

end
